theory Spec2Isabelle
  imports Main
begin

section \<open>Python values, exceptions and the enumeration classes\<close>

text \<open>
  The program is dynamically typed. A card's colour and type, a player id and the
  \<open>new_color\<close> argument of \<open>play\<close> hold whatever object was passed in, so they are
  modelled as values of \<open>pyval\<close>: a member of one of the enumeration classes, a string,
  an integer or \<open>None\<close>. Python's \<open>==\<close> on these is equality of \<open>pyval\<close>: an
  enumeration member (the classes mix in no \<open>str\<close>) is equal to itself only, never to a
  string.
\<close>

datatype member =
    RED | YELLOW | GREEN | BLUE
  | BLACK
  | N0 | N1 | N2 | N3 | N4 | N5 | N6 | N7 | N8 | N9
  | SKIP | REVERSE | PLUS2
  | WILDCARD | PLUS4

datatype enum_class =
    CardColor | NormalCardColor | BlackCardColor
  | CardType | ColorCardType | NumberCardType | SpecialCardType | BlackCardType

datatype pyval = Member member | Str string | IntVal int | NoneVal

datatype error =
    ValueError string
  | TypeError string
  | AttributeError string
  | NameError string
  | IndexError string
  | ZeroDivisionError

text \<open>The members each class statement declares in its own body (\<open>...\<close> declares none).\<close>

fun own_members :: "enum_class \<Rightarrow> member list" where
  "own_members CardColor = []"
| "own_members NormalCardColor = [RED, YELLOW, GREEN, BLUE]"
| "own_members BlackCardColor = [BLACK]"
| "own_members CardType = []"
| "own_members ColorCardType = []"
| "own_members NumberCardType = [N0, N1, N2, N3, N4, N5, N6, N7, N8, N9]"
| "own_members SpecialCardType = [SKIP, REVERSE, PLUS2]"
| "own_members BlackCardType = [WILDCARD, PLUS4]"

text \<open>The class and its bases below \<open>Enum\<close>, as the class statements give them.\<close>

fun mro :: "enum_class \<Rightarrow> enum_class list" where
  "mro CardColor = [CardColor]"
| "mro NormalCardColor = [NormalCardColor, CardColor]"
| "mro BlackCardColor = [BlackCardColor, CardColor]"
| "mro CardType = [CardType]"
| "mro ColorCardType = [ColorCardType, CardType]"
| "mro NumberCardType = [NumberCardType, ColorCardType, CardType]"
| "mro SpecialCardType = [SpecialCardType, ColorCardType, CardType]"
| "mro BlackCardType = [BlackCardType, CardType]"

fun class_of :: "member \<Rightarrow> enum_class" where
  "class_of RED = NormalCardColor"
| "class_of YELLOW = NormalCardColor"
| "class_of GREEN = NormalCardColor"
| "class_of BLUE = NormalCardColor"
| "class_of BLACK = BlackCardColor"
| "class_of SKIP = SpecialCardType"
| "class_of REVERSE = SpecialCardType"
| "class_of PLUS2 = SpecialCardType"
| "class_of WILDCARD = BlackCardType"
| "class_of PLUS4 = BlackCardType"
| "class_of _ = NumberCardType"

fun member_name :: "member \<Rightarrow> string" where
  "member_name RED = ''RED''"
| "member_name YELLOW = ''YELLOW''"
| "member_name GREEN = ''GREEN''"
| "member_name BLUE = ''BLUE''"
| "member_name BLACK = ''BLACK''"
| "member_name N0 = ''N0''"
| "member_name N1 = ''N1''"
| "member_name N2 = ''N2''"
| "member_name N3 = ''N3''"
| "member_name N4 = ''N4''"
| "member_name N5 = ''N5''"
| "member_name N6 = ''N6''"
| "member_name N7 = ''N7''"
| "member_name N8 = ''N8''"
| "member_name N9 = ''N9''"
| "member_name SKIP = ''SKIP''"
| "member_name REVERSE = ''REVERSE''"
| "member_name PLUS2 = ''PLUS2''"
| "member_name WILDCARD = ''WILDCARD''"
| "member_name PLUS4 = ''PLUS4''"

fun member_value :: "member \<Rightarrow> string" where
  "member_value RED = ''red''"
| "member_value YELLOW = ''yellow''"
| "member_value GREEN = ''green''"
| "member_value BLUE = ''blue''"
| "member_value BLACK = ''black''"
| "member_value N0 = ''0''"
| "member_value N1 = ''1''"
| "member_value N2 = ''2''"
| "member_value N3 = ''3''"
| "member_value N4 = ''4''"
| "member_value N5 = ''5''"
| "member_value N6 = ''6''"
| "member_value N7 = ''7''"
| "member_value N8 = ''8''"
| "member_value N9 = ''9''"
| "member_value SKIP = ''skip''"
| "member_value REVERSE = ''reverse''"
| "member_value PLUS2 = ''+2''"
| "member_value WILDCARD = ''wildcard''"
| "member_value PLUS4 = ''+4''"

definition isinstance :: "member \<Rightarrow> enum_class \<Rightarrow> bool" where
  "isinstance m cls = (cls \<in> set (mro (class_of m)))"

text \<open>
  \<open>cls.NAME\<close>: attribute access on an enumeration class finds the members of the class's
  own body and raises \<open>AttributeError\<close> for any other name.
\<close>

definition enum_getattr :: "enum_class \<Rightarrow> string \<Rightarrow> error + member" where
  "enum_getattr cls name =
     (case find (\<lambda>m. member_name m = name) (own_members cls) of
        None \<Rightarrow> Inl (AttributeError name)
      | Some m \<Rightarrow> Inr m)"

text \<open>
  \<open>value in cls\<close>. The interpreter decides what this means, and the two behaviours that
  exist are both modelled, selected by \<open>legacy\<close>:
  \<^item> before Python 3.12 (\<open>legacy\<close>): a \<open>TypeError\<close> for a value that is no enumeration
    member, and otherwise "an instance of \<open>cls\<close> whose name is in the member map of
    \<open>cls\<close>";
  \<^item> from Python 3.12 on: "an instance of \<open>cls\<close>, or the value of a member of \<open>cls\<close>".
\<close>

fun enum_contains :: "bool \<Rightarrow> enum_class \<Rightarrow> pyval \<Rightarrow> error + bool" where
  "enum_contains True cls (Member m) =
     Inr (isinstance m cls \<and> member_name m \<in> set (map member_name (own_members cls)))"
| "enum_contains True cls _ = Inl (TypeError ''unsupported operand type(s) for in'')"
| "enum_contains False cls (Member m) = Inr (isinstance m cls)"
| "enum_contains False cls (Str s) = Inr (s \<in> set (map member_value (own_members cls)))"
| "enum_contains False cls _ = Inr False"

text \<open>
  The interpreter's choice above, and the three module-level names the game reads but the
  module never binds: their assignments stand in a comment (lines 7 to 13 of the source),
  so a read of one of them raises \<open>NameError\<close>. \<open>None\<close> is the unbound name; the
  functions below are defined for any binding, and \<open>module_runtime\<close> is the module as it
  is written.
\<close>

record runtime =
  legacy :: bool
  COLORS :: "pyval list option"
  COLOR_CARD_TYPES :: "pyval list option"
  BLACK_CARD_TYPES :: "pyval list option"

definition module_runtime :: "bool \<Rightarrow> runtime" where
  "module_runtime lg =
     \<lparr>legacy = lg, COLORS = None, COLOR_CARD_TYPES = None, BLACK_CARD_TYPES = None\<rparr>"

definition global_name :: "string \<Rightarrow> 'a option \<Rightarrow> error + 'a" where
  "global_name name binding =
     (case binding of None \<Rightarrow> Inl (NameError name) | Some v \<Rightarrow> Inr v)"

section \<open>UnoCard\<close>

text \<open>
  An \<open>UnoCard\<close> object has the attributes \<open>color\<close> and \<open>type\<close> that \<open>__init__\<close> sets, and
  \<open>temp_color\<close> once \<open>play\<close> has assigned it (\<open>None\<close> here is "attribute not set").
\<close>

record UnoCard =
  color :: pyval
  type :: pyval
  temp_color :: "pyval option"

text \<open>\<open>card_type not in cls\<close>\<close>

definition not_in :: "bool \<Rightarrow> enum_class \<Rightarrow> pyval \<Rightarrow> error + bool" where
  "not_in lg cls v = (case enum_contains lg cls v of Inl e \<Rightarrow> Inl e | Inr b \<Rightarrow> Inr (\<not> b))"

text \<open>
  \<open>UnoCard.__validate\<close>. The second condition reads the attribute \<open>CardColor.BLACK\<close>
  before anything else; \<open>or\<close> and \<open>and\<close> evaluate left to right and stop early.
\<close>

definition validate :: "runtime \<Rightarrow> pyval \<Rightarrow> pyval \<Rightarrow> error + unit" where
  "validate rt color' card_type =
     (case not_in (legacy rt) CardColor color' of
        Inl e \<Rightarrow> Inl e
      | Inr True \<Rightarrow> Inl (ValueError ''Invalid color'')
      | Inr False \<Rightarrow>
          (case enum_getattr CardColor ''BLACK'' of
             Inl e \<Rightarrow> Inl e
           | Inr black \<Rightarrow>
               (case (if color' = Member black
                      then not_in (legacy rt) BlackCardType card_type else Inr False) of
                  Inl e \<Rightarrow> Inl e
                | Inr True \<Rightarrow> Inl (ValueError ''Invalid card'')
                | Inr False \<Rightarrow>
                    (case (if color' \<noteq> Member black
                           then not_in (legacy rt) ColorCardType card_type else Inr False) of
                       Inl e \<Rightarrow> Inl e
                     | Inr True \<Rightarrow> Inl (ValueError ''Invalid card'')
                     | Inr False \<Rightarrow> Inr ()))))"

text \<open>\<open>UnoCard.__init__\<close>: the attributes are assigned only after validation returned.\<close>

definition UnoCard_init :: "runtime \<Rightarrow> pyval \<Rightarrow> pyval \<Rightarrow> error + UnoCard" where
  "UnoCard_init rt color' card_type =
     (case validate rt color' card_type of
        Inl e \<Rightarrow> Inl e
      | Inr _ \<Rightarrow> Inr \<lparr>color = color', type = card_type, temp_color = None\<rparr>)"

text \<open>Attribute read on a card object.\<close>

definition card_getattr :: "UnoCard \<Rightarrow> string \<Rightarrow> error + pyval" where
  "card_getattr self name =
     (if name = ''color'' then Inr (color self)
      else if name = ''type'' then Inr (type self)
      else if name = ''temp_color'' then
        (case temp_color self of None \<Rightarrow> Inl (AttributeError name) | Some v \<Rightarrow> Inr v)
      else Inl (AttributeError name))"

text \<open>\<open>UnoCard.playable\<close>: \<open>self\<close> is the card on top, \<open>other\<close> the candidate.\<close>

definition playable :: "UnoCard \<Rightarrow> UnoCard \<Rightarrow> bool" where
  "playable self other =
     (color self = color other \<or> type self = type other \<or> color other = Str ''black'')"

section \<open>UnoPlayer\<close>

record UnoPlayer =
  hand :: "UnoCard list"
  player_id :: pyval

text \<open>
  \<open>UnoPlayer.__validate\<close>. Every element of a hand is an \<open>UnoCard\<close> by its type here,
  so the \<open>isinstance\<close> test of the second check holds of every element.
\<close>

definition UnoPlayer_validate :: "UnoCard list \<Rightarrow> error + unit" where
  "UnoPlayer_validate cards =
     (if length cards \<noteq> 7 then Inl (ValueError ''Invalid number of cards'')
      else if \<not> list_all (\<lambda>c. True) cards then Inl (ValueError ''Invalid card types'')
      else Inr ())"

text \<open>
  \<open>UnoPlayer.__init__\<close>: two assignments. The body does not call \<open>__validate\<close>, and
  nothing else in the module does.
\<close>

definition UnoPlayer_init :: "UnoCard list \<Rightarrow> pyval \<Rightarrow> error + UnoPlayer" where
  "UnoPlayer_init cards pid = Inr \<lparr>hand = cards, player_id = pid\<rparr>"

definition can_play :: "UnoPlayer \<Rightarrow> UnoCard \<Rightarrow> bool" where
  "can_play self current_card = list_ex (\<lambda>c. playable current_card c) (hand self)"

section \<open>ReversibleCycle\<close>

text \<open>
  The attributes \<open>_items\<close>, \<open>_pos\<close> (\<open>None\<close> until the first \<open>next\<close>) and \<open>_reverse\<close>.
\<close>

record 'a ReversibleCycle =
  rc_items :: "'a list"
  rc_pos :: "int option"
  rc_reverse :: bool

definition ReversibleCycle_init :: "'a list \<Rightarrow> 'a ReversibleCycle" where
  "ReversibleCycle_init iterable = \<lparr>rc_items = iterable, rc_pos = None, rc_reverse = False\<rparr>"

definition delta :: "'a ReversibleCycle \<Rightarrow> int" where
  "delta self = (if rc_reverse self then - 1 else 1)"

text \<open>
  The setter of \<open>pos\<close>: \<open>value % len(self._items)\<close>. Python's \<open>%\<close> with a positive
  divisor gives a result in \<open>0 ..< n\<close>, as \<open>mod\<close> on \<open>int\<close> does; with no items it raises
  \<open>ZeroDivisionError\<close> and assigns nothing.
\<close>

definition pos_set :: "'a ReversibleCycle \<Rightarrow> int \<Rightarrow> error + 'a ReversibleCycle" where
  "pos_set self v =
     (if length (rc_items self) = 0 then Inl ZeroDivisionError
      else Inr (self\<lparr>rc_pos := Some (v mod int (length (rc_items self)))\<rparr>))"

text \<open>
  \<open>ReversibleCycle.__next__\<close>: the result, and the cycle afterwards. The index read is
  within the list whenever the setter returned.
\<close>

definition cycle_next :: "'a ReversibleCycle \<Rightarrow> (error + 'a) \<times> 'a ReversibleCycle" where
  "cycle_next self =
     (case (case rc_pos self of
              None \<Rightarrow> pos_set self (if rc_reverse self then - 1 else 0)
            | Some p \<Rightarrow> pos_set self (p + delta self)) of
        Inl e \<Rightarrow> (Inl e, self)
      | Inr self' \<Rightarrow> (Inr (rc_items self' ! nat (the (rc_pos self'))), self'))"

definition reverse :: "'a ReversibleCycle \<Rightarrow> 'a ReversibleCycle" where
  "reverse self = self\<lparr>rc_reverse := \<not> rc_reverse self\<rparr>"

text \<open>
  \<open>n\<close> calls of \<open>next\<close> in a row: the values returned, up to the first exception if there
  is one, and the cycle afterwards.
\<close>

fun advances :: "nat \<Rightarrow> 'a ReversibleCycle \<Rightarrow> (error + 'a) list \<times> 'a ReversibleCycle" where
  "advances 0 c = ([], c)"
| "advances (Suc n) c =
     (case cycle_next c of
        (Inl e, c') \<Rightarrow> ([Inl e], c')
      | (Inr x, c') \<Rightarrow> (case advances n c' of (xs, c'') \<Rightarrow> (Inr x # xs, c'')))"

section \<open>UnoGame\<close>

text \<open>
  The game object. A player object is referred to by its index in \<open>players\<close>: the list
  is built once by \<open>__init__\<close> and only the hands inside it change, and \<open>UnoPlayer\<close> has
  no \<open>__eq__\<close>, so \<open>!=\<close> on two players compares identity, which is the index. The items
  of the cycle are these references.
\<close>

record UnoGame =
  deck :: "UnoCard list"
  players :: "UnoPlayer list"
  player_cycle :: "nat ReversibleCycle"
  current_player :: nat
  winner :: "nat option"

text \<open>
  \<open>[xs.pop(0) for i in range(n)]\<close>: the cards taken from the front, and the list that is
  left. Each \<open>pop\<close> shortens the list at once; when the list runs out, the comprehension
  raises and the cards already popped are referenced by nothing any more.
\<close>

fun pop_front :: "nat \<Rightarrow> 'a list \<Rightarrow> (error + 'a list) \<times> 'a list" where
  "pop_front 0 xs = (Inr [], xs)"
| "pop_front (Suc n) [] = (Inl (IndexError ''pop from empty list''), [])"
| "pop_front (Suc n) (x # xs) =
     (case pop_front n xs of
        (Inl e, xs') \<Rightarrow> (Inl e, xs')
      | (Inr ys, xs') \<Rightarrow> (Inr (x # ys), xs'))"

text \<open>\<open>[xs.pop() for i in range(n)]\<close>: the same from the end of the list.\<close>

fun pop_back :: "nat \<Rightarrow> 'a list \<Rightarrow> (error + 'a list) \<times> 'a list" where
  "pop_back 0 xs = (Inr [], xs)"
| "pop_back (Suc n) xs =
     (if xs = [] then (Inl (IndexError ''pop from empty list''), [])
      else (case pop_back n (butlast xs) of
              (Inl e, xs') \<Rightarrow> (Inl e, xs')
            | (Inr ys, xs') \<Rightarrow> (Inr (last xs # ys), xs')))"

text \<open>
  \<open>xs[i]\<close> and \<open>xs.pop(i)\<close> with Python's indices: \<open>-len(xs) <= i < 0\<close> counts from the
  end, anything outside \<open>-len(xs) ..< len(xs)\<close> raises \<open>IndexError\<close>. The result is the
  position counted from the front.
\<close>

definition py_index :: "'a list \<Rightarrow> int \<Rightarrow> error + nat" where
  "py_index xs i =
     (if 0 \<le> i \<and> i < int (length xs) then Inr (nat i)
      else if - int (length xs) \<le> i \<and> i < 0 then Inr (nat (int (length xs) + i))
      else Inl (IndexError ''list index out of range''))"

definition pop_at :: "'a list \<Rightarrow> nat \<Rightarrow> 'a list" where
  "pop_at xs k = take k xs @ drop (Suc k) xs"

text \<open>Turns the results of a list of constructor calls into the list built, or the
  first exception.\<close>

fun collect :: "(error + 'a) list \<Rightarrow> error + 'a list" where
  "collect [] = Inr []"
| "collect (Inl e # rs) = Inl e"
| "collect (Inr x # rs) = (case collect rs of Inl e \<Rightarrow> Inl e | Inr xs \<Rightarrow> Inr (x # xs))"

text \<open>
  \<open>UnoGame._create_deck\<close>. \<open>shuffle\<close> stands for \<open>random.shuffle\<close>. The three names are
  read in the order of the source; the black cards are built with the string
  \<open>'black'\<close> as their colour.
\<close>

definition create_deck ::
  "runtime \<Rightarrow> (UnoCard list \<Rightarrow> UnoCard list) \<Rightarrow> bool \<Rightarrow> error + UnoCard list" where
  "create_deck rt shuffle random =
     (case global_name ''COLORS'' (COLORS rt) of
        Inl e \<Rightarrow> Inl e
      | Inr colors \<Rightarrow>
     (case global_name ''COLOR_CARD_TYPES'' (COLOR_CARD_TYPES rt) of
        Inl e \<Rightarrow> Inl e
      | Inr color_card_types \<Rightarrow>
     (case global_name ''BLACK_CARD_TYPES'' (BLACK_CARD_TYPES rt) of
        Inl e \<Rightarrow> Inl e
      | Inr black_card_types \<Rightarrow>
          (let color_cards = List.product colors color_card_types;
               black_cards = List.product (replicate 4 (Str ''black'')) black_card_types;
               all_cards = color_cards @ black_cards
           in case collect (map (\<lambda>(c, t). UnoCard_init rt c t) all_cards) of
                Inl e \<Rightarrow> Inl e
              | Inr deck' \<Rightarrow> Inr (if random then shuffle deck' else rev deck')))))"

text \<open>\<open>UnoGame._deal_hand\<close>, on the deck: the hand dealt and the deck left.\<close>

definition deal_hand :: "UnoCard list \<Rightarrow> (error + UnoCard list) \<times> UnoCard list" where
  "deal_hand d = pop_back 7 d"

text \<open>The list comprehension of \<open>__init__\<close> that deals a hand to each player in turn.\<close>

fun deal_players :: "UnoCard list \<Rightarrow> nat list \<Rightarrow> error + UnoPlayer list \<times> UnoCard list" where
  "deal_players d [] = Inr ([], d)"
| "deal_players d (n # ns) =
     (case deal_hand d of
        (Inl e, d') \<Rightarrow> Inl e
      | (Inr cards, d') \<Rightarrow>
          (case UnoPlayer_init cards (IntVal (int n)) of
             Inl e \<Rightarrow> Inl e
           | Inr p \<Rightarrow>
               (case deal_players d' ns of
                  Inl e \<Rightarrow> Inl e
                | Inr (ps, d'') \<Rightarrow> Inr (p # ps, d''))))"

text \<open>
  \<open>UnoGame.__init__\<close>. The argument is an \<open>int\<close> by its type here, which is the first
  check of the source.
\<close>

definition UnoGame_init ::
  "runtime \<Rightarrow> (UnoCard list \<Rightarrow> UnoCard list) \<Rightarrow> int \<Rightarrow> bool \<Rightarrow> error + UnoGame" where
  "UnoGame_init rt shuffle n random =
     (if \<not> (2 \<le> n \<and> n \<le> 15) then
        Inl (ValueError ''Invalid game: must be between 2 and 15 players'')
      else case create_deck rt shuffle random of
        Inl e \<Rightarrow> Inl e
      | Inr d \<Rightarrow>
          (case deal_players d [0 ..< nat n] of
             Inl e \<Rightarrow> Inl e
           | Inr (ps, d') \<Rightarrow>
               (case cycle_next (ReversibleCycle_init [0 ..< length ps]) of
                  (Inl e, c) \<Rightarrow> Inl e
                | (Inr p, c) \<Rightarrow>
                    Inr \<lparr>deck = d', players = ps, player_cycle = c,
                         current_player = p, winner = None\<rparr>)))"

text \<open>\<open>UnoGame.__next__\<close>\<close>

definition game_next :: "UnoGame \<Rightarrow> (error + unit) \<times> UnoGame" where
  "game_next self =
     (case cycle_next (player_cycle self) of
        (Inl e, c) \<Rightarrow> (Inl e, self\<lparr>player_cycle := c\<rparr>)
      | (Inr p, c) \<Rightarrow> (Inr (), self\<lparr>player_cycle := c, current_player := p\<rparr>))"

text \<open>The properties \<open>current_card\<close> (\<open>self.deck[-1]\<close>) and \<open>is_active\<close>.\<close>

definition current_card :: "UnoGame \<Rightarrow> error + UnoCard" where
  "current_card self =
     (if deck self = [] then Inl (IndexError ''list index out of range'')
      else Inr (last (deck self)))"

definition is_active :: "UnoGame \<Rightarrow> bool" where
  "is_active self = list_all (\<lambda>p. length (hand p) > 0) (players self)"

text \<open>
  \<open>UnoGame._pick_up\<close>. \<open>player\<close> is the index of a player of the game (the source passes
  the player object). When the deck runs out, the deck stays as the pops left it and no
  hand is extended.
\<close>

definition pick_up :: "UnoGame \<Rightarrow> nat \<Rightarrow> nat \<Rightarrow> (error + unit) \<times> UnoGame" where
  "pick_up self player n =
     (case pop_front n (deck self) of
        (Inl e, d) \<Rightarrow> (Inl e, self\<lparr>deck := d\<rparr>)
      | (Inr penalty_cards, d) \<Rightarrow>
          (Inr (),
           self\<lparr>deck := d,
                players := (players self)
                  [player := (players self ! player)
                     \<lparr>hand := hand (players self ! player) @ penalty_cards\<rparr>]\<rparr>))"

text \<open>\<open>self.current_card.temp_color = new_color\<close>: an attribute of the last card of the deck.\<close>

definition set_temp_color :: "UnoGame \<Rightarrow> pyval \<Rightarrow> (error + unit) \<times> UnoGame" where
  "set_temp_color self new_color =
     (case current_card self of
        Inl e \<Rightarrow> (Inl e, self)
      | Inr c \<Rightarrow>
          (Inr (), self\<lparr>deck := butlast (deck self) @ [c\<lparr>temp_color := Some new_color\<rparr>]\<rparr>))"

text \<open>\<open>next(self)\<close>, then \<open>self._pick_up(self.current_player, n)\<close>.\<close>

definition next_then_pick_up :: "UnoGame \<Rightarrow> nat \<Rightarrow> (error + unit) \<times> UnoGame" where
  "next_then_pick_up self n =
     (case game_next self of
        (Inl e, s) \<Rightarrow> (Inl e, s)
      | (Inr _, s) \<Rightarrow> pick_up s (current_player s) n)"

text \<open>Lines 297 to 308 of \<open>play\<close>: the effect of the card played.\<close>

definition effect :: "UnoGame \<Rightarrow> pyval \<Rightarrow> pyval \<Rightarrow> pyval \<Rightarrow> (error + unit) \<times> UnoGame" where
  "effect self card_color card_type new_color =
     (if card_color = Str ''black'' then
        (case set_temp_color self new_color of
           (Inl e, s) \<Rightarrow> (Inl e, s)
         | (Inr _, s) \<Rightarrow>
             (if card_type = Str ''+4'' then next_then_pick_up s 4 else (Inr (), s)))
      else if card_type = Str ''reverse'' then
        (Inr (), self\<lparr>player_cycle := reverse (player_cycle self)\<rparr>)
      else if card_type = Str ''skip'' then game_next self
      else if card_type = Str ''+2'' then next_then_pick_up self 2
      else (Inr (), self))"

text \<open>
  Lines 292 to 314 of \<open>play\<close>, once the checks have passed: \<open>k\<close> is the position of the
  card in the hand of \<open>player\<close>. \<open>_print_winner\<close> prints and changes nothing.
\<close>

definition resolve :: "UnoGame \<Rightarrow> nat \<Rightarrow> nat \<Rightarrow> pyval \<Rightarrow> (error + unit) \<times> UnoGame" where
  "resolve self player k new_color =
     (let played_card = hand (players self ! player) ! k;
          s1 = self\<lparr>players := (players self)
                      [player := (players self ! player)
                         \<lparr>hand := pop_at (hand (players self ! player)) k\<rparr>],
                    deck := deck self @ [played_card]\<rparr>
      in case card_getattr played_card ''color'' of
           Inl e \<Rightarrow> (Inl e, s1)
         | Inr card_color \<Rightarrow>
        (case card_getattr played_card ''card_type'' of
           Inl e \<Rightarrow> (Inl e, s1)
         | Inr card_type \<Rightarrow>
        (case effect s1 card_color card_type new_color of
           (Inl e, s2) \<Rightarrow> (Inl e, s2)
         | (Inr _, s2) \<Rightarrow>
             (if is_active s2 then game_next s2
              else (Inr (), s2\<lparr>winner := Some player\<rparr>)))))"

text \<open>Lines 284 to 288 of \<open>play\<close>: the check of \<open>new_color\<close> for a card whose colour is
  the string \<open>'black'\<close>.\<close>

definition check_new_color :: "runtime \<Rightarrow> UnoCard \<Rightarrow> pyval \<Rightarrow> error + unit" where
  "check_new_color rt c new_color =
     (if color c = Str ''black'' then
        (case global_name ''COLORS'' (COLORS rt) of
           Inl e \<Rightarrow> Inl e
         | Inr colors \<Rightarrow>
             (if new_color \<notin> set colors then
                Inl (ValueError ''Invalid new_color: must be red, yellow, green or blue'')
              else Inr ()))
      else Inr ())"

text \<open>
  \<open>UnoGame.play\<close>: the result and the game afterwards. \<open>player\<close> is an \<open>int\<close> by its type
  here (the first check of the source); \<open>card\<close> is \<open>None\<close> for a draw.
\<close>

definition play ::
  "runtime \<Rightarrow> UnoGame \<Rightarrow> int \<Rightarrow> int option \<Rightarrow> pyval \<Rightarrow> (error + unit) \<times> UnoGame" where
  "play rt self player card' new_color =
     (if \<not> (0 \<le> player \<and> player < int (length (players self))) then
        (Inl (ValueError ''Invalid player: index out of range''), self)
      else if current_player self \<noteq> nat player then
        (Inl (ValueError ''Invalid player: not their turn''), self)
      else case card' of
        None \<Rightarrow>
          (case pick_up self (nat player) 1 of
             (Inl e, s) \<Rightarrow> (Inl e, s)
           | (Inr _, s) \<Rightarrow> game_next s)
      | Some i \<Rightarrow>
          (case py_index (hand (players self ! nat player)) i of
             Inl e \<Rightarrow> (Inl e, self)
           | Inr k \<Rightarrow>
          (case current_card self of
             Inl e \<Rightarrow> (Inl e, self)
           | Inr cur \<Rightarrow>
               (if \<not> playable cur (hand (players self ! nat player) ! k) then
                  (Inl (ValueError ''Invalid card: not playable''), self)
                else case check_new_color rt (hand (players self ! nat player) ! k) new_color of
                  Inl e \<Rightarrow> (Inl e, self)
                | Inr _ \<Rightarrow>
                    (if \<not> is_active self then (Inl (ValueError ''Game is over''), self)
                     else resolve self (nat player) k new_color)))))"

definition cards_total :: "UnoGame \<Rightarrow> nat" where
  "cards_total self = length (deck self) + sum_list (map (\<lambda>p. length (hand p)) (players self))"

text \<open>
  The exceptions that the checks of \<open>play\<close> raise (lines 266 to 290 of the source): a
  \<open>ValueError\<close>, the \<open>IndexError\<close> of an index outside a list, and the \<open>NameError\<close> of
  the unbound \<open>COLORS\<close>. Popping from an empty list raises an \<open>IndexError\<close> with another
  message, told apart here.
\<close>

fun raised_by_checks :: "error \<Rightarrow> bool" where
  "raised_by_checks (ValueError m) = True"
| "raised_by_checks (IndexError m) = (m = ''list index out of range'')"
| "raised_by_checks (NameError m) = True"
| "raised_by_checks _ = False"

section \<open>Concrete cards and games\<close>

text \<open>
  A card whose colour and type are members of the enumerations, as the annotations of
  \<open>UnoCard.__init__\<close> describe it, and the games on which the functions are evaluated
  below: two players, player 0 to move, the last card of the deck on top.
\<close>

definition enum_card :: "member \<Rightarrow> member \<Rightarrow> UnoCard" where
  "enum_card c t = \<lparr>color = Member c, type = Member t, temp_color = None\<rparr>"

definition game_last_card :: UnoGame where
  "game_last_card =
     \<lparr>deck = [enum_card BLUE N3, enum_card GREEN N7, enum_card RED N1],
      players = [\<lparr>hand = [enum_card RED N5], player_id = IntVal 0\<rparr>,
                 \<lparr>hand = [enum_card GREEN N2, enum_card BLUE SKIP], player_id = IntVal 1\<rparr>],
      player_cycle = \<lparr>rc_items = [0, 1], rc_pos = Some 0, rc_reverse = False\<rparr>,
      current_player = 0, winner = None\<rparr>"

text \<open>\<open>game_last_card\<close> with the last card of player 0 moved onto the deck.\<close>

definition game_hand_emptied :: UnoGame where
  "game_hand_emptied =
     \<lparr>deck = [enum_card BLUE N3, enum_card GREEN N7, enum_card RED N1, enum_card RED N5],
      players = [\<lparr>hand = [], player_id = IntVal 0\<rparr>,
                 \<lparr>hand = [enum_card GREEN N2, enum_card BLUE SKIP], player_id = IntVal 1\<rparr>],
      player_cycle = \<lparr>rc_items = [0, 1], rc_pos = Some 0, rc_reverse = False\<rparr>,
      current_player = 0, winner = None\<rparr>"

text \<open>\<open>game_hand_emptied\<close> after player 0 has drawn a card and the turn has passed.\<close>

definition game_drawn_after_end :: UnoGame where
  "game_drawn_after_end =
     \<lparr>deck = [enum_card GREEN N7, enum_card RED N1, enum_card RED N5],
      players = [\<lparr>hand = [enum_card BLUE N3], player_id = IntVal 0\<rparr>,
                 \<lparr>hand = [enum_card GREEN N2, enum_card BLUE SKIP], player_id = IntVal 1\<rparr>],
      player_cycle = \<lparr>rc_items = [0, 1], rc_pos = Some 1, rc_reverse = False\<rparr>,
      current_player = 1, winner = None\<rparr>"

definition game_wild4 :: UnoGame where
  "game_wild4 =
     \<lparr>deck = [enum_card BLUE N3, enum_card GREEN N7, enum_card YELLOW N4, enum_card BLUE N9,
              enum_card RED SKIP, enum_card BLACK WILDCARD],
      players = [\<lparr>hand = [enum_card BLACK PLUS4, enum_card RED N5], player_id = IntVal 0\<rparr>,
                 \<lparr>hand = [enum_card GREEN N2, enum_card BLUE SKIP], player_id = IntVal 1\<rparr>],
      player_cycle = \<lparr>rc_items = [0, 1], rc_pos = Some 0, rc_reverse = False\<rparr>,
      current_player = 0, winner = None\<rparr>"

text \<open>\<open>game_wild4\<close> with the first card of player 0 moved onto the deck.\<close>

definition game_wild4_moved :: UnoGame where
  "game_wild4_moved =
     \<lparr>deck = [enum_card BLUE N3, enum_card GREEN N7, enum_card YELLOW N4, enum_card BLUE N9,
              enum_card RED SKIP, enum_card BLACK WILDCARD, enum_card BLACK PLUS4],
      players = [\<lparr>hand = [enum_card RED N5], player_id = IntVal 0\<rparr>,
                 \<lparr>hand = [enum_card GREEN N2, enum_card BLUE SKIP], player_id = IntVal 1\<rparr>],
      player_cycle = \<lparr>rc_items = [0, 1], rc_pos = Some 0, rc_reverse = False\<rparr>,
      current_player = 0, winner = None\<rparr>"

text \<open>108 cards, two of them left in the deck; and 108 cards as they are after the deal.\<close>

definition game_exhausted :: UnoGame where
  "game_exhausted =
     \<lparr>deck = [enum_card RED N0, enum_card BLACK PLUS4],
      players = [\<lparr>hand = replicate 53 (enum_card RED N1), player_id = IntVal 0\<rparr>,
                 \<lparr>hand = replicate 53 (enum_card BLUE N2), player_id = IntVal 1\<rparr>],
      player_cycle = \<lparr>rc_items = [0, 1], rc_pos = Some 1, rc_reverse = False\<rparr>,
      current_player = 1, winner = None\<rparr>"

definition game_dealt :: UnoGame where
  "game_dealt =
     \<lparr>deck = replicate 94 (enum_card GREEN N4),
      players = [\<lparr>hand = replicate 7 (enum_card RED N1), player_id = IntVal 0\<rparr>,
                 \<lparr>hand = replicate 7 (enum_card BLUE N2), player_id = IntVal 1\<rparr>],
      player_cycle = \<lparr>rc_items = [0, 1], rc_pos = Some 0, rc_reverse = False\<rparr>,
      current_player = 0, winner = None\<rparr>"

section \<open>Facts about the list operations\<close>

lemma pop_front_enough: "n \<le> length xs \<Longrightarrow> pop_front n xs = (Inr (take n xs), drop n xs)"
  by (induction n xs rule: pop_front.induct) simp_all

lemma pop_front_short:
  "length xs < n \<Longrightarrow> pop_front n xs = (Inl (IndexError ''pop from empty list''), [])"
  by (induction n xs rule: pop_front.induct) simp_all

lemma pop_back_enough:
  "n \<le> length xs \<Longrightarrow> pop_back n xs = (Inr (take n (rev xs)), take (length xs - n) xs)"
proof (induction n arbitrary: xs)
  case 0
  then show ?case by simp
next
  case (Suc n)
  then have "xs \<noteq> []" by auto
  then obtain ys y where xs: "xs = ys @ [y]" by (metis append_butlast_last_id)
  with Suc.prems have "n \<le> length ys" by simp
  from Suc.IH[OF this] show ?case using xs by simp
qed

lemma pop_back_short:
  "length xs < m \<Longrightarrow> fst (pop_back m xs) = Inl (IndexError ''pop from empty list'')"
proof (induction m arbitrary: xs)
  case 0
  then show ?case by simp
next
  case (Suc m)
  show ?case
  proof (cases "xs = []")
    case True
    then show ?thesis by simp
  next
    case False
    with Suc.prems have "length (butlast xs) < m" by (cases xs) auto
    from Suc.IH[OF this] show ?thesis using False
      by (cases "pop_back m (butlast xs)") auto
  qed
qed

lemma py_index_bound: "py_index xs i = Inr k \<Longrightarrow> k < length xs"
  by (auto simp: py_index_def split: if_splits)

lemma hands_update:
  "p < length ps \<Longrightarrow>
   sum_list (map (\<lambda>q. length (hand q)) (ps[p := (ps ! p)\<lparr>hand := h\<rparr>])) + length (hand (ps ! p))
     = sum_list (map (\<lambda>q. length (hand q)) ps) + length h"
proof (induction ps arbitrary: p)
  case Nil
  then show ?case by simp
next
  case (Cons a ps)
  show ?case
  proof (cases p)
    case 0
    then show ?thesis by simp
  next
    case (Suc m)
    with Cons.prems have "m < length ps" by simp
    from Cons.IH[OF this] show ?thesis using Suc by simp
  qed
qed

section \<open>Facts about the card constructor and the deck\<close>

text \<open>
  \<open>UnoCard.__validate\<close> raises for every colour and type, under either meaning of \<open>in\<close>:
  the class \<open>CardColor\<close> has no member of its own, so either \<open>color not in CardColor\<close>
  holds or the read of \<open>CardColor.BLACK\<close> raises.
\<close>

lemma validate_raises:
  "validate rt c t = Inl
     (case c of
        Member m \<Rightarrow>
          (if legacy rt then ValueError ''Invalid color''
           else if isinstance m CardColor then AttributeError ''BLACK''
           else ValueError ''Invalid color'')
      | _ \<Rightarrow>
          (if legacy rt then TypeError ''unsupported operand type(s) for in''
           else ValueError ''Invalid color''))"
  by (cases c; cases "legacy rt") (simp_all add: validate_def not_in_def enum_getattr_def)

lemma UnoCard_init_raises: "\<exists>e. UnoCard_init rt c t = Inl e"
  by (simp add: UnoCard_init_def validate_raises)

lemma collect_raises:
  "xs \<noteq> [] \<Longrightarrow> (\<And>x. \<exists>e. f x = Inl e) \<Longrightarrow> \<exists>e. collect (map f xs) = Inl e"
proof (cases xs)
  case Nil
  assume "xs \<noteq> []"
  with Nil show ?thesis by simp
next
  case (Cons x ys)
  assume "\<And>x. \<exists>e. f x = Inl e"
  then obtain e where "f x = Inl e" by blast
  with Cons show ?thesis by simp
qed

text \<open>
  Whatever lists the three names are bound to, \<open>_create_deck\<close> returns no card: it
  raises, or it returns the empty list it was given to enumerate.
\<close>

lemma create_deck_builds_no_card:
  assumes "create_deck rt sh False = Inr d"
  shows "d = []"
proof -
  from assms obtain cs ts bs where b:
    "COLORS rt = Some cs" "COLOR_CARD_TYPES rt = Some ts" "BLACK_CARD_TYPES rt = Some bs"
    by (auto simp: create_deck_def global_name_def split: option.splits)
  define xs where "xs = List.product cs ts @ List.product (replicate 4 (Str ''black'')) bs"
  have "xs = []"
  proof (rule ccontr)
    assume "xs \<noteq> []"
    moreover have "\<And>x. \<exists>e. (\<lambda>(c, t). UnoCard_init rt c t) x = Inl e"
      by (simp add: split_def UnoCard_init_raises)
    ultimately obtain e where "collect (map (\<lambda>(c, t). UnoCard_init rt c t) xs) = Inl e"
      using collect_raises by blast
    with assms b show False
      by (simp add: create_deck_def global_name_def xs_def)
  qed
  with assms b show ?thesis
    by (simp add: create_deck_def global_name_def xs_def)
qed

lemma UnoGame_init_module_raises:
  "UnoGame_init (module_runtime lg) sh n random =
     Inl (if 2 \<le> n \<and> n \<le> 15 then NameError ''COLORS''
          else ValueError ''Invalid game: must be between 2 and 15 players'')"
  by (simp add: UnoGame_init_def create_deck_def module_runtime_def global_name_def)

section \<open>Facts about \<open>play\<close>\<close>

text \<open>
  Once the checks have passed, \<open>play\<close> moves the card from the hand to the deck and
  then reads \<open>played_card.card_type\<close>. A card has the attributes \<open>color\<close> and \<open>type\<close>,
  so the read raises \<open>AttributeError\<close> for every card, and lines 297 to 314 never run.
\<close>

lemma resolve_raises:
  "resolve s p k nc =
     (Inl (AttributeError ''card_type''),
      s\<lparr>players := (players s)[p := (players s ! p)\<lparr>hand := pop_at (hand (players s ! p)) k\<rparr>],
        deck := deck s @ [hand (players s ! p) ! k]\<rparr>)"
  by (simp add: resolve_def card_getattr_def Let_def)

lemma cycle_next_error: "cycle_next c = (Inl e, c') \<Longrightarrow> e = ZeroDivisionError \<and> c' = c"
  by (auto simp: cycle_next_def pos_set_def split: option.splits if_splits sum.splits)

lemma game_next_error: "game_next s = (Inl e, s') \<Longrightarrow> e = ZeroDivisionError"
  by (auto simp: game_next_def split: prod.splits sum.splits dest: cycle_next_error)

lemma pick_up_one_error:
  "pick_up s p (Suc 0) = (Inl e, s') \<Longrightarrow> e = IndexError ''pop from empty list''"
  by (cases "deck s") (auto simp: pick_up_def split: prod.splits sum.splits)

lemma pick_up_total:
  assumes "n \<le> length (deck s)" and "p < length (players s)"
  shows "fst (pick_up s p n) = Inr () \<and> cards_total (snd (pick_up s p n)) = cards_total s"
proof -
  have "sum_list (map (\<lambda>q. length (hand q))
          ((players s)[p := (players s ! p)\<lparr>hand := hand (players s ! p) @ take n (deck s)\<rparr>]))
        + length (hand (players s ! p))
      = sum_list (map (\<lambda>q. length (hand q)) (players s))
        + length (hand (players s ! p) @ take n (deck s))"
    using assms(2) by (rule hands_update)
  then show ?thesis using assms(1)
    by (simp add: pick_up_def pop_front_enough cards_total_def)
qed

lemma game_next_total: "cards_total (snd (game_next s)) = cards_total s"
  by (simp add: game_next_def cards_total_def split: prod.splits sum.splits)

lemma resolve_total:
  assumes "p < length (players s)" and "k < length (hand (players s ! p))"
  shows "cards_total (snd (resolve s p k nc)) = cards_total s"
proof -
  have "sum_list (map (\<lambda>q. length (hand q))
          ((players s)[p := (players s ! p)\<lparr>hand := pop_at (hand (players s ! p)) k\<rparr>]))
        + length (hand (players s ! p))
      = sum_list (map (\<lambda>q. length (hand q)) (players s))
        + length (pop_at (hand (players s ! p)) k)"
    using assms(1) by (rule hands_update)
  moreover have "Suc (length (pop_at (hand (players s ! p)) k)) = length (hand (players s ! p))"
    using assms(2) by (simp add: pop_at_def)
  ultimately show ?thesis by (simp add: resolve_raises cards_total_def)
qed

lemma pick_up_short:
  assumes "length (deck s) < n"
  shows "fst (pick_up s p n) = Inl (IndexError ''pop from empty list'')
       \<and> deck (snd (pick_up s p n)) = []
       \<and> players (snd (pick_up s p n)) = players s
       \<and> cards_total (snd (pick_up s p n)) + length (deck s) = cards_total s"
  using assms by (simp add: pick_up_def pop_front_short cards_total_def)

lemma play_total: "cards_total (snd (play rt s player card' new_color)) = cards_total s"
proof (cases "0 \<le> player \<and> player < int (length (players s)) \<and> current_player s = nat player")
  case False
  then show ?thesis by (auto simp: play_def)
next
  case ok: True
  then have p: "nat player < length (players s)" by (simp add: nat_less_iff)
  show ?thesis
  proof (cases card')
    case None
    show ?thesis
    proof (cases "deck s")
      case Nil
      with ok None show ?thesis by (simp add: play_def pick_up_def cards_total_def)
    next
      case (Cons c cs)
      then have "1 \<le> length (deck s)" by simp
      from pick_up_total[OF this p] obtain s1 where
        s1: "pick_up s (nat player) 1 = (Inr (), s1)" and t: "cards_total s1 = cards_total s"
        by (cases "pick_up s (nat player) 1") auto
      show ?thesis using ok None s1 t game_next_total[of s1] by (simp add: play_def)
    qed
  next
    case (Some i)
    show ?thesis
      using ok Some
      by (auto simp: play_def split: sum.splits
          dest!: py_index_bound intro!: resolve_total[OF p])
  qed
qed

text \<open>
  A call of \<open>play\<close> that raises in its checks (lines 266 to 290) leaves the game as it
  was: the card is moved only after the last check.
\<close>

lemma play_rejected_keeps_game:
  assumes "fst (play rt s player card' new_color) = Inl e" and "raised_by_checks e"
  shows "snd (play rt s player card' new_color) = s"
proof -
  from assms(1) obtain s' where r: "play rt s player card' new_color = (Inl e, s')"
    by (cases "play rt s player card' new_color") simp
  from r assms(2) have "s' = s"
    by (auto simp: play_def resolve_raises
        split: if_splits option.splits sum.splits prod.splits
        dest!: game_next_error pick_up_one_error)
  with r show ?thesis by simp
qed

lemma play_rejected_examples:
  "play rt game_wild4 5 (Some 0) NoneVal
     = (Inl (ValueError ''Invalid player: index out of range''), game_wild4)
   \<and> play rt game_wild4 1 (Some 0) NoneVal
     = (Inl (ValueError ''Invalid player: not their turn''), game_wild4)
   \<and> play rt game_wild4 0 (Some 2) NoneVal
     = (Inl (IndexError ''list index out of range''), game_wild4)
   \<and> play rt game_wild4 0 (Some 1) NoneVal
     = (Inl (ValueError ''Invalid card: not playable''), game_wild4)"
  by (simp add: play_def game_wild4_def py_index_def current_card_def playable_def
      enum_card_def)

lemma deal_players_total:
  "deal_players d ns = Inr (ps, d') \<Longrightarrow>
   length d' + sum_list (map (\<lambda>q. length (hand q)) ps) = length d"
proof (induction ns arbitrary: d ps d')
  case Nil
  then show ?case by simp
next
  case (Cons n ns)
  show ?case
  proof (cases "7 \<le> length d")
    case True
    from Cons.prems True obtain ps' where
      r: "deal_players (take (length d - 7) d) ns = Inr (ps', d')"
      and ps: "ps = \<lparr>hand = take 7 (rev d), player_id = IntVal (int n)\<rparr> # ps'"
      by (auto simp: deal_hand_def pop_back_enough UnoPlayer_init_def
          split: sum.splits prod.splits)
    from Cons.IH[OF r] show ?thesis using ps True by simp
  next
    case False
    then have "fst (deal_hand d) = Inl (IndexError ''pop from empty list'')"
      by (simp add: deal_hand_def pop_back_short)
    with Cons.prems show ?thesis by (auto split: prod.splits sum.splits)
  qed
qed

section \<open>The claims\<close>

text \<open>
  C1. The claim: \<open>playable(topCard, candidate)\<close> is true exactly when the colour in
  effect of the top card is the candidate's colour, or the types are equal, or the
  candidate's colour is Black. The code departs from it on cards built from the
  enumerations: the third test compares the candidate's colour with the string
  \<open>'black'\<close>, which the member \<open>BlackCardColor.BLACK\<close> is not equal to, so a wild card is
  not playable on a red zero; and the first test reads the colour of the top card itself,
  not \<open>temp_color\<close>, so a red five is not playable on a wild card whose chosen colour is
  red. (Type equality does compare the digit: a red five is not playable on a blue six.)
\<close>

theorem playable_rejects_black_on_colored:
  "playable (enum_card RED N0) (enum_card BLACK WILDCARD) = False
   \<and> playable ((enum_card BLACK WILDCARD)\<lparr>temp_color := Some (Member RED)\<rparr>) (enum_card RED N5) = False
   \<and> playable (enum_card BLUE N6) (enum_card RED N5) = False"
  by (simp add: playable_def enum_card_def)

text \<open>
  C2, as amended. In a game whose deck and hands hold 108 cards: every call of \<open>play\<close>,
  whether it returns or raises, leaves 108 cards; a penalty draw of \<open>n\<close> cards from a deck
  of at least \<open>n\<close> cards returns and leaves 108 cards; a penalty draw of more cards than
  the deck holds raises \<open>IndexError\<close>, empties the deck, extends no hand, and leaves 108
  less the cards the deck held; and dealing hands from a deck of 108 cards leaves 108
  cards in the deck and the hands dealt.
\<close>

theorem cards_total_kept:
  "(cards_total s = 108
      \<longrightarrow> cards_total (snd (play rt s player card' new_color)) = 108)
   \<and> (cards_total s = 108 \<and> n \<le> length (deck s) \<and> p < length (players s)
      \<longrightarrow> fst (pick_up s p n) = Inr () \<and> cards_total (snd (pick_up s p n)) = 108)
   \<and> (cards_total s = 108 \<and> length (deck s) < n
      \<longrightarrow> fst (pick_up s p n) = Inl (IndexError ''pop from empty list'')
          \<and> deck (snd (pick_up s p n)) = []
          \<and> players (snd (pick_up s p n)) = players s
          \<and> cards_total (snd (pick_up s p n)) = 108 - length (deck s))
   \<and> (length d = 108 \<and> deal_players d ns = Inr (ps, d')
      \<longrightarrow> length d' + sum_list (map (\<lambda>q. length (hand q)) ps) = 108)"
proof (intro conjI impI)
  assume "cards_total s = 108"
  then show "cards_total (snd (play rt s player card' new_color)) = 108"
    using play_total[of rt s player card' new_color] by simp
next
  assume a: "cards_total s = 108 \<and> n \<le> length (deck s) \<and> p < length (players s)"
  then have "fst (pick_up s p n) = Inr () \<and> cards_total (snd (pick_up s p n)) = cards_total s"
    by (intro pick_up_total) simp_all
  with a show "fst (pick_up s p n) = Inr ()" "cards_total (snd (pick_up s p n)) = 108"
    by simp_all
next
  assume a: "cards_total s = 108 \<and> length (deck s) < n"
  then have b: "fst (pick_up s p n) = Inl (IndexError ''pop from empty list'')
       \<and> deck (snd (pick_up s p n)) = []
       \<and> players (snd (pick_up s p n)) = players s
       \<and> cards_total (snd (pick_up s p n)) + length (deck s) = cards_total s"
    by (intro pick_up_short) simp
  from b show "fst (pick_up s p n) = Inl (IndexError ''pop from empty list'')"
    "deck (snd (pick_up s p n)) = []" "players (snd (pick_up s p n)) = players s"
    by simp_all
  from a b have "cards_total (snd (pick_up s p n)) + length (deck s) = 108" by simp
  then show "cards_total (snd (pick_up s p n)) = 108 - length (deck s)" by arith
next
  assume "length d = 108 \<and> deal_players d ns = Inr (ps, d')"
  then show "length d' + sum_list (map (\<lambda>q. length (hand q)) ps) = 108"
    using deal_players_total[of d ns ps d'] by simp
qed

text \<open>
  The same at concrete games: a draw by player 0 and a penalty draw of 2 in a game just
  dealt, a penalty draw of 3 with two cards left in the deck, and the deal to two
  players.
\<close>

theorem cards_total_kept_witness:
  "cards_total game_dealt = 108
   \<and> cards_total (snd (play (module_runtime False) game_dealt 0 None NoneVal)) = 108
   \<and> 2 \<le> length (deck game_dealt) \<and> 1 < length (players game_dealt)
   \<and> fst (pick_up game_dealt 1 2) = Inr ()
   \<and> cards_total (snd (pick_up game_dealt 1 2)) = 108
   \<and> cards_total game_exhausted = 108 \<and> length (deck game_exhausted) < 3
   \<and> fst (pick_up game_exhausted 1 3) = Inl (IndexError ''pop from empty list'')
   \<and> cards_total (snd (pick_up game_exhausted 1 3)) = 106
   \<and> length (replicate 108 (enum_card GREEN N4)) = 108
   \<and> deal_players (replicate 108 (enum_card GREEN N4)) [0, 1] =
       Inr ([\<lparr>hand = replicate 7 (enum_card GREEN N4), player_id = IntVal 0\<rparr>,
             \<lparr>hand = replicate 7 (enum_card GREEN N4), player_id = IntVal 1\<rparr>],
            replicate 94 (enum_card GREEN N4))
   \<and> length (replicate 94 (enum_card GREEN N4)) + (7 + 7) = 108"
proof -
  have t: "cards_total game_dealt = 108"
    by (simp add: cards_total_def game_dealt_def)
  have b: "2 \<le> length (deck game_dealt) \<and> 1 < length (players game_dealt)"
    by (simp add: game_dealt_def)
  have x: "cards_total game_exhausted = 108 \<and> length (deck game_exhausted) < 3"
    "length (deck game_exhausted) = 2"
    by (simp_all add: cards_total_def game_exhausted_def)
  have l: "length (replicate 108 (enum_card GREEN N4)) = 108" by simp
  have d: "deal_players (replicate 108 (enum_card GREEN N4)) [0, 1] =
       Inr ([\<lparr>hand = replicate 7 (enum_card GREEN N4), player_id = IntVal 0\<rparr>,
             \<lparr>hand = replicate 7 (enum_card GREEN N4), player_id = IntVal 1\<rparr>],
            replicate 94 (enum_card GREEN N4))"
    by (simp add: deal_hand_def pop_back_enough UnoPlayer_init_def)
  from t b l d
    cards_total_kept[where s = game_dealt and rt = "module_runtime False" and player = 0
      and card' = None and new_color = NoneVal and n = 2 and p = 1
      and d = "replicate 108 (enum_card GREEN N4)" and ns = "[0, 1]"
      and ps = "[\<lparr>hand = replicate 7 (enum_card GREEN N4), player_id = IntVal 0\<rparr>,
                 \<lparr>hand = replicate 7 (enum_card GREEN N4), player_id = IntVal 1\<rparr>]"
      and d' = "replicate 94 (enum_card GREEN N4)"]
  have first: "cards_total (snd (play (module_runtime False) game_dealt 0 None NoneVal)) = 108
     \<and> fst (pick_up game_dealt 1 2) = Inr ()
     \<and> cards_total (snd (pick_up game_dealt 1 2)) = 108"
    by simp
  from x
    cards_total_kept[where s = game_exhausted and n = 3 and p = 1]
  have second: "fst (pick_up game_exhausted 1 3) = Inl (IndexError ''pop from empty list'')
     \<and> cards_total (snd (pick_up game_exhausted 1 3)) = 106"
    by simp
  from t b x(1) l d first second show ?thesis by simp
qed

text \<open>
  C2, as stated, fails where a penalty draw runs out of cards: with two cards left in
  the deck of a game of 108 cards, \<open>_pick_up(player, 4)\<close> pops both, raises
  \<open>IndexError\<close>, and 106 cards are left in the deck and the hands.
\<close>

theorem pick_up_exhausted_loses_cards:
  "cards_total game_exhausted = 108
   \<and> fst (pick_up game_exhausted 0 4) = Inl (IndexError ''pop from empty list'')
   \<and> cards_total (snd (pick_up game_exhausted 0 4)) = 106"
  by (simp add: pick_up_def game_exhausted_def cards_total_def numeral_eq_Suc)

text \<open>
  C3. The claim: a play that empties the hand of the player sets the winner, and every
  later call of \<open>play\<close>, a draw included, is rejected and changes nothing. The code
  departs from it twice. Player 0 plays the last card of the hand: the card moves to the
  deck, the read of \<open>played_card.card_type\<close> raises \<open>AttributeError\<close>, and the winner is
  still unset although a hand is empty. Player 0 then calls \<open>play\<close> with no card: the
  test of \<open>is_active\<close> stands after the branch of the draw, so the call returns, player 0
  holds a card again and the turn has passed to player 1.
\<close>

theorem play_last_card_sets_no_winner:
  "play rt game_last_card 0 (Some 0) NoneVal =
     (Inl (AttributeError ''card_type''), game_hand_emptied)
   \<and> hand (players game_hand_emptied ! 0) = []
   \<and> is_active game_hand_emptied = False
   \<and> winner game_hand_emptied = None
   \<and> play rt game_hand_emptied 0 None NoneVal = (Inr (), game_drawn_after_end)
   \<and> current_player game_hand_emptied = 0
   \<and> current_player game_drawn_after_end = 1
   \<and> hand (players game_drawn_after_end ! 0) = [enum_card BLUE N3]"
  by (simp add: play_def resolve_raises game_last_card_def game_hand_emptied_def
      game_drawn_after_end_def py_index_def current_card_def playable_def enum_card_def
      check_new_color_def is_active_def pop_at_def pick_up_def game_next_def cycle_next_def
      pos_set_def delta_def)

text \<open>
  C4. The claim: the constructor succeeds for (Black, Wild) and (Black, WildDrawFour)
  and fails for the mixed pairings, leaving no card. The code raises for the two black
  pairings as well: \<open>__validate\<close> reads \<open>CardColor.BLACK\<close>, and \<open>BLACK\<close> is a member of
  \<open>BlackCardColor\<close>, not of \<open>CardColor\<close> (before Python 3.12 the test
  \<open>color not in CardColor\<close> already holds of every colour and raises \<open>ValueError\<close>).
\<close>

theorem UnoCard_init_black_wild_raises:
  "UnoCard_init rt (Member BLACK) (Member WILDCARD) =
     Inl (if legacy rt then ValueError ''Invalid color'' else AttributeError ''BLACK'')
   \<and> UnoCard_init rt (Member BLACK) (Member PLUS4) =
     Inl (if legacy rt then ValueError ''Invalid color'' else AttributeError ''BLACK'')"
  by (simp add: UnoCard_init_def validate_raises isinstance_def)

text \<open>
  C5. The claim: building the deck gives 108 cards, in the reverse of the order of
  enumeration when it is not shuffled. The code raises \<open>NameError\<close> instead: the name
  \<open>COLORS\<close> that \<open>_create_deck\<close> reads first is bound nowhere in the module.
\<close>

theorem create_deck_raises_NameError:
  "create_deck (module_runtime lg) shuffle random = Inl (NameError ''COLORS'')"
  by (simp add: create_deck_def module_runtime_def global_name_def)



text \<open>
  C7. The claim: playing a WildDrawFour without a colour fails and changes nothing, and
  with a colour it sets the colour in effect, makes the next player draw 4 and skips
  that player. The code departs from it. The colour of the card is the member
  \<open>BlackCardColor.BLACK\<close>, not the string \<open>'black'\<close>, so \<open>new_color\<close> is not looked at:
  without a colour the call is not rejected, the card moves from the hand to the deck,
  and the call then raises \<open>AttributeError\<close> at \<open>played_card.card_type\<close>. With the colour
  red the same happens: the next player draws nothing, no colour is recorded on the
  card, and the turn stays with player 0.
\<close>

theorem play_wild4_without_color_moves_card:
  "play rt game_wild4 0 (Some 0) NoneVal =
     (Inl (AttributeError ''card_type''), game_wild4_moved)
   \<and> play rt game_wild4 0 (Some 0) (Member RED) =
     (Inl (AttributeError ''card_type''), game_wild4_moved)
   \<and> game_wild4_moved \<noteq> game_wild4
   \<and> hand (players game_wild4_moved ! 1) = hand (players game_wild4 ! 1)
   \<and> temp_color (last (deck game_wild4_moved)) = None
   \<and> current_player game_wild4_moved = 0"
  by (simp add: play_def resolve_raises game_wild4_def game_wild4_moved_def py_index_def
      current_card_def playable_def enum_card_def check_new_color_def is_active_def pop_at_def)

text \<open>
  C8. The claim: a call of \<open>play\<close> that fails validation, for the player, the turn, the
  index of the card, an unplayable card or a missing or invalid colour, leaves the game
  unmodified. The code departs from it for the colour: the colour of a black card is the
  member \<open>BlackCardColor.BLACK\<close>, not the string \<open>'black'\<close>, so \<open>new_color\<close> is not
  checked, and a call with a colour that is none of the four is not rejected by the
  checks. The card moves from the hand to the deck, and the exception comes afterwards,
  from \<open>played_card.card_type\<close>. (The calls the checks do reject leave the game as it
  was: \<open>play_rejected_keeps_game\<close>.)
\<close>

theorem play_invalid_color_moves_card:
  "play rt game_wild4 0 (Some 0) (Str ''purple'') =
     (Inl (AttributeError ''card_type''), game_wild4_moved)
   \<and> raised_by_checks (AttributeError ''card_type'') = False
   \<and> check_new_color rt (enum_card BLACK PLUS4) (Str ''purple'') = Inr ()
   \<and> deck game_wild4_moved = deck game_wild4 @ [enum_card BLACK PLUS4]
   \<and> hand (players game_wild4 ! 0) = [enum_card BLACK PLUS4, enum_card RED N5]
   \<and> hand (players game_wild4_moved ! 0) = [enum_card RED N5]"
  by (simp add: play_def resolve_raises game_wild4_def game_wild4_moved_def py_index_def
      current_card_def playable_def enum_card_def check_new_color_def is_active_def pop_at_def)

text \<open>
  C9. The claim: constructing a player fails unless the hand has exactly 7 cards. The
  code accepts any hand: \<open>__init__\<close> assigns the list and never calls \<open>__validate\<close>, which
  would have raised for the empty hand.
\<close>

theorem UnoPlayer_init_accepts_empty_hand:
  "UnoPlayer_init [] NoneVal = Inr \<lparr>hand = [], player_id = NoneVal\<rparr>
   \<and> UnoPlayer_validate [] = Inl (ValueError ''Invalid number of cards'')"
  by (simp add: UnoPlayer_init_def UnoPlayer_validate_def)

text \<open>
  C10. Two calls of \<open>reverse\<close> in a row give back the cycle they started from, in any
  state of the cycle, so every run of calls of \<open>next\<close> after them returns the players, and
  ends in the cycle, that it would have without them.
\<close>

theorem reverse_twice_identity:
  "reverse (reverse cyc) = cyc \<and> advances n (reverse (reverse cyc)) = advances n cyc"
  by (simp add: reverse_def)

end
